theory Spec2Isabelle
  imports Main "HOL-Library.Sublist"
begin

section \<open>The quick-file-open core of \<^verbatim>\<open>quick-file-open.ts\<close>\<close>

text \<open>
  The development embeds the two pure pieces of
  \<^verbatim>\<open>packages/file-search/src/browser/quick-file-open.ts\<close>:
  \<^verbatim>\<open>splitFilterAndRange\<close> (with the regular expression
  \<^verbatim>\<open>LINE_COLON_PATTERN\<close>) and \<^verbatim>\<open>compareItems\<close> (with its nested
  functions \<^verbatim>\<open>normalize\<close> and \<^verbatim>\<open>score\<close>).

  A JavaScript string is a sequence of UTF-16 code units. It is modelled as a
  \<^typ>\<open>string\<close>, whose characters stand for the code units \<open>0\<close> to \<open>255\<close>
  (Latin-1); \<open>length\<close> is the \<^verbatim>\<open>length\<close> property. The built-in string
  methods the source calls are written out below on that carrier.
\<close>

subsection \<open>JavaScript strings\<close>

text \<open>
  White space as \<^verbatim>\<open>\s\<close> and \<^verbatim>\<open>String.prototype.trim\<close> read it
  (WhiteSpace and LineTerminator), among the code units below 256: TAB, LF, VT, FF, CR,
  SP and NBSP.
\<close>

definition is_space :: "char \<Rightarrow> bool" where
  "is_space c = (c \<in> set [CHR 0x09, CHR 0x0A, CHR 0x0B, CHR 0x0C, CHR 0x0D, CHR 0x20, CHR 0xA0])"

text \<open>\<^verbatim>\<open>\d\<close>: the ten ASCII digits.\<close>

definition is_digit :: "char \<Rightarrow> bool" where
  "is_digit c = (c \<in> set ''0123456789'')"

text \<open>\<^verbatim>\<open>str.trim()\<close>\<close>

definition trim :: "string \<Rightarrow> string" where
  "trim s = rev (dropWhile is_space (rev (dropWhile is_space s)))"

text \<open>
  \<^verbatim>\<open>str.toLowerCase()\<close>: the Unicode lower-case mapping of a code unit below 256
  (\<open>A\<close> to \<open>Z\<close>, and \<open>0xC0\<close> to \<open>0xDE\<close> without the multiplication sign \<open>0xD7\<close>, move
  up by 32; every other code unit is kept).
\<close>

definition lower_char :: "char \<Rightarrow> char" where
  "lower_char c =
     (let n = (of_char c :: nat)
      in if (65 \<le> n \<and> n \<le> 90) \<or> (192 \<le> n \<and> n \<le> 222 \<and> n \<noteq> 215)
         then char_of (n + 32) else c)"

definition toLowerCase :: "string \<Rightarrow> string" where
  "toLowerCase s = map lower_char s"

text \<open>
  \<^verbatim>\<open>str.indexOf(search)\<close>: the smallest position at which \<open>search\<close> occurs,
  \<open>-1\<close> when there is none. \<open>indexOf_from\<close> walks the string with the position reached.
\<close>

fun indexOf_from :: "int \<Rightarrow> string \<Rightarrow> string \<Rightarrow> int" where
  "indexOf_from i [] p = (if p = [] then i else - 1)"
| "indexOf_from i (c # s) p = (if prefix p (c # s) then i else indexOf_from (i + 1) s p)"

definition indexOf :: "string \<Rightarrow> string \<Rightarrow> int" where
  "indexOf s p = indexOf_from 0 s p"

text \<open>\<^verbatim>\<open>str.includes(search)\<close>: there is a position at which \<open>search\<close> occurs.\<close>

definition includes_str :: "string \<Rightarrow> string \<Rightarrow> bool" where
  "includes_str s p = (indexOf s p \<noteq> - 1)"

subsection \<open>JavaScript numbers\<close>

text \<open>
  A JavaScript number is a double. The numbers of this file are results of
  \<^verbatim>\<open>parseInt\<close>, scores, and sums and differences of scores: \<^verbatim>\<open>NaN\<close>, an
  integer-valued double, \<^verbatim>\<open>Infinity\<close> or \<^verbatim>\<open>-Infinity\<close>. \<open>round53\<close> rounds a
  non-negative integer to 53 significant bits, ties to even, which is the nearest
  double; below \<open>2^53\<close> every integer is its own double. \<open>bit_length n\<close> is the number
  of binary digits of \<open>n\<close>.
\<close>

datatype js_number = NaN | Finite int | PosInfinity | NegInfinity

function bit_length :: "int \<Rightarrow> nat" where
  "bit_length n = (if n \<le> 0 then 0 else Suc (bit_length (n div 2)))"
  by pat_completeness auto
termination
  by (relation "measure nat") auto

definition round53 :: "int \<Rightarrow> int" where
  "round53 n =
     (if n < 2 ^ 53 then n
      else let e = bit_length n - 53;
               q = n div 2 ^ e;
               r = n mod 2 ^ e;
               h = 2 ^ (e - 1)
           in (if h < r \<or> (r = h \<and> odd q) then q + 1 else q) * 2 ^ e)"

definition to_double :: "int \<Rightarrow> js_number" where
  "to_double n = (let v = round53 n in if 2 ^ 1024 \<le> v then PosInfinity else Finite v)"

definition digit_value :: "char \<Rightarrow> int" where
  "digit_value c = of_char c - 48"

definition decimal_value :: "string \<Rightarrow> int" where
  "decimal_value ds = foldl (\<lambda>acc c. 10 * acc + digit_value c) 0 ds"

text \<open>
  \<^verbatim>\<open>parseInt(str, 10)\<close> on a string without sign or leading white space, which is
  what the groups \<^verbatim>\<open>(\d*)\<close> capture: the longest prefix of digits, \<^verbatim>\<open>NaN\<close>
  when it is empty.
\<close>

definition parseInt :: "string \<Rightarrow> js_number" where
  "parseInt s =
     (let ds = takeWhile is_digit s
      in if ds = [] then NaN else to_double (decimal_value ds))"

text \<open>\<^verbatim>\<open>Number.isFinite\<close>\<close>

fun isFinite :: "js_number \<Rightarrow> bool" where
  "isFinite (Finite _) = True"
| "isFinite _ = False"

text \<open>\<^verbatim>\<open>n > 0 ? n - 1 : 0\<close> on a finite number; the difference is a double again.\<close>

definition pred_or_zero :: "int \<Rightarrow> int" where
  "pred_or_zero n = (if 0 < n then round53 (n - 1) else 0)"

text \<open>
  The double nearest to an integer of either sign; a magnitude that rounds to \<open>2^1024\<close>
  or more overflows to an infinity.
\<close>

definition round_number :: "int \<Rightarrow> js_number" where
  "round_number n =
     (if 0 \<le> n then to_double n
      else (case to_double (- n) of Finite v \<Rightarrow> Finite (- v) | _ \<Rightarrow> NegInfinity))"

text \<open>
  \<^verbatim>\<open>x + y\<close> and \<^verbatim>\<open>x - y\<close> on numbers: the exact result of two finite operands,
  rounded to the nearest double; the infinities absorb finite operands, and
  \<^verbatim>\<open>Infinity - Infinity\<close> is \<^verbatim>\<open>NaN\<close>.
\<close>

fun js_add :: "js_number \<Rightarrow> js_number \<Rightarrow> js_number" where
  "js_add (Finite x) (Finite y) = round_number (x + y)"
| "js_add NaN y = NaN"
| "js_add x NaN = NaN"
| "js_add PosInfinity NegInfinity = NaN"
| "js_add NegInfinity PosInfinity = NaN"
| "js_add PosInfinity y = PosInfinity"
| "js_add x PosInfinity = PosInfinity"
| "js_add NegInfinity y = NegInfinity"
| "js_add x NegInfinity = NegInfinity"

fun js_negate :: "js_number \<Rightarrow> js_number" where
  "js_negate (Finite x) = Finite (- x)"
| "js_negate PosInfinity = NegInfinity"
| "js_negate NegInfinity = PosInfinity"
| "js_negate NaN = NaN"

definition js_sub :: "js_number \<Rightarrow> js_number \<Rightarrow> js_number" where
  "js_sub x y = js_add x (js_negate y)"

text \<open>\<^verbatim>\<open>x === y\<close> on numbers: \<^verbatim>\<open>NaN\<close> equals nothing, itself included.\<close>

definition strict_equal :: "js_number \<Rightarrow> js_number \<Rightarrow> bool" where
  "strict_equal x y = (x \<noteq> NaN \<and> x = y)"

subsection \<open>The pattern \<^verbatim>\<open>LINE_COLON_PATTERN\<close>\<close>

text \<open>
  \<^verbatim>\<open>/\s?[#:\(](?:line )?(\d*)(?:[#:,](\d*))?\)?\s*$/\<close>

  Each piece of the pattern maps the rest of the input to the list of the rests it can
  leave, in the order in which the backtracking matcher tries them (a greedy piece
  offers its longest match first). A capturing piece returns the captured text too.
\<close>

text \<open>\<^verbatim>\<open>\s?\<close>\<close>

fun opt_space :: "string \<Rightarrow> string list" where
  "opt_space [] = [[]]"
| "opt_space (c # s) = (if is_space c then [s, c # s] else [c # s])"

text \<open>\<^verbatim>\<open>[#:\(]\<close>\<close>

fun marker :: "string \<Rightarrow> string list" where
  "marker [] = []"
| "marker (c # s) = (if c \<in> set ''#:('' then [s] else [])"

text \<open>\<^verbatim>\<open>(?:line )?\<close>\<close>

definition opt_line :: "string \<Rightarrow> string list" where
  "opt_line s = (if prefix ''line '' s then [drop 5 s, s] else [s])"

text \<open>\<^verbatim>\<open>(\d*)\<close>: every prefix of the leading run of digits, the longest first.\<close>

definition digits :: "string \<Rightarrow> (string \<times> string) list" where
  "digits s =
     map (\<lambda>k. (take k s, drop k s)) (rev [0 ..< Suc (length (takeWhile is_digit s))])"

text \<open>
  \<^verbatim>\<open>(?:[#:,](\d*))?\<close>: the separator and its digits, or nothing; the group is
  undefined (\<open>None\<close>) when the optional part is skipped.
\<close>

fun opt_column :: "string \<Rightarrow> (string option \<times> string) list" where
  "opt_column [] = [(None, [])]"
| "opt_column (c # s) =
     (if c \<in> set ''#:,'' then map (\<lambda>(g, r). (Some g, r)) (digits s) @ [(None, c # s)]
      else [(None, c # s)])"

text \<open>\<^verbatim>\<open>\)?\<close>\<close>

fun opt_paren :: "string \<Rightarrow> string list" where
  "opt_paren [] = [[]]"
| "opt_paren (c # s) = (if c = CHR '')'' then [s, c # s] else [c # s])"

text \<open>\<^verbatim>\<open>\s*\<close>: every prefix of the leading run of white space, the longest first.\<close>

definition spaces :: "string \<Rightarrow> string list" where
  "spaces s = map (\<lambda>k. drop k s) (rev [0 ..< Suc (length (takeWhile is_space s))])"

text \<open>
  The matches of the whole pattern that start at the head of \<open>s\<close>, as the pairs of
  captured groups, in the matcher's order; \<^verbatim>\<open>$\<close> keeps those that reach the end of
  the input.
\<close>

definition matches_here :: "string \<Rightarrow> (string option \<times> string option) list" where
  "matches_here s =
     [(Some g1, g2).
        s1 \<leftarrow> opt_space s, s2 \<leftarrow> marker s1, s3 \<leftarrow> opt_line s2,
        (g1, s4) \<leftarrow> digits s3, (g2, s5) \<leftarrow> opt_column s4,
        s6 \<leftarrow> opt_paren s5, s7 \<leftarrow> spaces s6, s7 = []]"

text \<open>
  \<^verbatim>\<open>LINE_COLON_PATTERN.exec(expression)\<close>: the matcher tries the start indices from
  \<open>0\<close> up to the length of the input and returns the first match at the smallest one
  that has a match, with that index (\<^verbatim>\<open>patternMatch.index\<close>) and the two groups
  (\<^verbatim>\<open>patternMatch[1]\<close>, \<^verbatim>\<open>patternMatch[2]\<close>); \<open>None\<close> is \<^verbatim>\<open>null\<close>.
\<close>

record pattern_match =
  index :: nat
  group1 :: "string option"
  group2 :: "string option"

fun exec_from :: "nat \<Rightarrow> string \<Rightarrow> pattern_match option" where
  "exec_from i [] =
     (case matches_here [] of
        (g1, g2) # _ \<Rightarrow> Some \<lparr>index = i, group1 = g1, group2 = g2\<rparr>
      | [] \<Rightarrow> None)"
| "exec_from i (c # s) =
     (case matches_here (c # s) of
        (g1, g2) # _ \<Rightarrow> Some \<lparr>index = i, group1 = g1, group2 = g2\<rparr>
      | [] \<Rightarrow> exec_from (Suc i) s)"

definition LINE_COLON_PATTERN_exec :: "string \<Rightarrow> pattern_match option" where
  "LINE_COLON_PATTERN_exec expression = exec_from 0 expression"

subsection \<open>\<^verbatim>\<open>splitFilterAndRange\<close>\<close>

text \<open>
  Modelled from the spec: \<^verbatim>\<open>Position\<close> and \<^verbatim>\<open>Range\<close> are imported from the
  editor package, which is not among the sources. The spec has the range as
  \<open>(startLine, startColumn, endLine, endColumn)\<close>, "a zero-width position range at
  \<open>(lineNumber, startColumn)\<close>": \<^verbatim>\<open>Position.create(line, character)\<close> and
  \<^verbatim>\<open>Range.create(start, end)\<close> build the records from their arguments.
\<close>

record position =
  pos_line :: int
  pos_character :: int

record range =
  range_start :: position
  range_end :: position

record FilterAndRange =
  filter' :: string
  range' :: "range option"

definition Position_create :: "int \<Rightarrow> int \<Rightarrow> position" where
  "Position_create l c = \<lparr>pos_line = l, pos_character = c\<rparr>"

definition Range_create :: "position \<Rightarrow> position \<Rightarrow> range" where
  "Range_create s e = \<lparr>range_start = s, range_end = e\<rparr>"

text \<open>\<^verbatim>\<open>g ?? ''\<close>\<close>

definition or_empty :: "string option \<Rightarrow> string" where
  "or_empty g = (case g of None \<Rightarrow> [] | Some t \<Rightarrow> t)"

definition splitFilterAndRange :: "string \<Rightarrow> FilterAndRange" where
  "splitFilterAndRange expression =
     (case LINE_COLON_PATTERN_exec expression of
        None \<Rightarrow> \<lparr>filter' = expression, range' = None\<rparr>
      | Some patternMatch \<Rightarrow>
          (case parseInt (or_empty (group1 patternMatch)) of
             Finite line \<Rightarrow>
               (let lineNumber = pred_or_zero line;
                    startColumn =
                      (case parseInt (or_empty (group2 patternMatch)) of
                         Finite column \<Rightarrow> pred_or_zero column
                       | _ \<Rightarrow> 0);
                    position = Position_create lineNumber startColumn
                in \<lparr>filter' = take (index patternMatch) expression,
                    range' = Some (Range_create position position)\<rparr>)
           | _ \<Rightarrow> \<lparr>filter' = expression, range' = None\<rparr>))"

subsection \<open>The collaborators of \<^verbatim>\<open>compareItems\<close>\<close>

text \<open>
  \<^verbatim>\<open>fuzzy.match(pattern, str)\<close> belongs to a package outside the repository. It
  returns \<^verbatim>\<open>null\<close> (\<open>None\<close>) or a result whose \<^verbatim>\<open>score\<close> is a count or
  \<^verbatim>\<open>Infinity\<close>. The primitive is a parameter \<open>fz\<close> of the embedding; \<open>Score n\<close>
  stands for the finite integer-valued double \<open>n\<close>, and every sum and difference of
  scores is taken in double arithmetic (\<open>js_add\<close>, \<open>js_sub\<close>).
\<close>

datatype fuzzy_score = Score int | Infinity

type_synonym fuzzy_match = "string \<Rightarrow> string \<Rightarrow> fuzzy_score option"

text \<open>
  \<^verbatim>\<open>a.localeCompare(b)\<close> is the host's collation: negative when \<open>a\<close> sorts before
  \<open>b\<close>, zero when they are equivalent, positive otherwise. It is the parameter \<open>lc\<close>,
  called as \<open>lc a b\<close>.
\<close>

type_synonym locale_compare = "string \<Rightarrow> string \<Rightarrow> int"

text \<open>
  \<^verbatim>\<open>QuickFileOpenService.Scores\<close>
\<close>

definition Scores_max :: int where
  "Scores_max = 1000"

definition Scores_exact :: int where
  "Scores_exact = 500"

definition Scores_partial :: int where
  "Scores_partial = 250"

text \<open>
  Modelled from the spec: the constant \<^verbatim>\<open>WHITESPACE_QUERY_SEPARATOR\<close> is imported
  from \<^verbatim>\<open>../common/file-search-service\<close>, which is not among the sources. The spec
  has the normalized filter split "on whitespace into tokens", so the separator is a
  run of white space (\<^verbatim>\<open>/\s+/\<close>). \<open>split_whitespace\<close> is
  \<^verbatim>\<open>str.split(WHITESPACE_QUERY_SEPARATOR)\<close>: the pieces between the runs, an empty
  piece before a leading and after a trailing run, and one empty piece for the empty
  string. \<open>split_from cur s\<close> holds the piece being read.
\<close>

function split_from :: "string \<Rightarrow> string \<Rightarrow> string list" where
  "split_from cur [] = [cur]"
| "split_from cur (c # s) =
     (if is_space c then cur # split_from [] (dropWhile is_space s)
      else split_from (cur @ [c]) s)"
  by pat_completeness auto
termination
  by (relation "measure (\<lambda>(cur, s). length s)")
     (auto simp: length_dropWhile_le less_Suc_eq_le)

definition split_whitespace :: "string \<Rightarrow> string list" where
  "split_whitespace str = split_from [] str"

text \<open>
  A \<^verbatim>\<open>QuickOpenItem\<close> as \<^verbatim>\<open>toItem\<close> builds it, with a label and a URI; of
  the URI the comparison reads \<^verbatim>\<open>uri.path.toString()\<close>, kept here as \<open>uri_path\<close>.
\<close>

record QuickOpenItem =
  label :: string
  uri_path :: string

text \<open>The parameter \<^verbatim>\<open>member: 'getLabel' | 'getUri'\<close>.\<close>

datatype member = GetLabel | GetUri

text \<open>
  \<^verbatim>\<open>a[member]()\<close>, followed by the conversion of a URI to its path string.
\<close>

fun member_string :: "QuickOpenItem \<Rightarrow> member \<Rightarrow> string" where
  "member_string a GetLabel = label a"
| "member_string a GetUri = uri_path a"

subsection \<open>\<^verbatim>\<open>compareItems\<close>\<close>

text \<open>The nested function \<^verbatim>\<open>normalize\<close>.\<close>

definition normalize_str :: "string \<Rightarrow> string" where
  "normalize_str str = toLowerCase (trim str)"

text \<open>
  The nested function \<^verbatim>\<open>score\<close>; \<open>query\<close> is the variable of the enclosing
  call it closes over. The \<^verbatim>\<open>forEach\<close> loop is a fold over the two flags.
\<close>

definition score :: "fuzzy_match \<Rightarrow> string \<Rightarrow> string \<Rightarrow> js_number" where
  "score fz query str =
     (let querySplit = split_whitespace query;
          queryJoin = concat querySplit;
          (exactMatch, partialMatch) =
             foldl (\<lambda>(exactMatch, partialMatch) part.
                      let partMatches = includes_str str part
                      in (exactMatch \<and> partMatches, partialMatch \<or> partMatches))
                   (True, False) querySplit;
          fuzzyMatch = fz queryJoin str;
          matchScore =
             (case fuzzyMatch of
                None \<Rightarrow> Finite 0
              | Some Infinity \<Rightarrow> Finite Scores_max
              | Some (Score n) \<Rightarrow> Finite n)
      in if exactMatch then js_add matchScore (Finite Scores_exact)
         else if partialMatch then js_add matchScore (Finite Scores_partial)
         else (case fuzzyMatch of None \<Rightarrow> Finite 0 | Some _ \<Rightarrow> matchScore))"

text \<open>
  \<^verbatim>\<open>compareItems(a, b, member)\<close>; \<open>currentFilter\<close> is the field
  \<^verbatim>\<open>this.filterAndRange.filter\<close> the method reads. The result is a number: the
  indices, the lengths and the result of the collation are integers far below \<open>2^53\<close>,
  the scores and their difference are doubles.
\<close>

function compareItems ::
  "fuzzy_match \<Rightarrow> locale_compare \<Rightarrow> string \<Rightarrow> QuickOpenItem \<Rightarrow> QuickOpenItem \<Rightarrow> member
     \<Rightarrow> js_number"
where
  "compareItems fz lc currentFilter a b member =
     (let query = normalize_str currentFilter;
          itemA = normalize_str (member_string a member);
          itemB = normalize_str (member_string b member);
          scoreA = score fz query itemA;
          scoreB = score fz query itemB
      in if strict_equal scoreA scoreB then
           (let indexA = indexOf itemA query;
                indexB = indexOf itemB query
            in if indexA = indexB then
                 (if length itemA \<noteq> length itemB
                  then (if length itemA < length itemB then Finite (- 1) else Finite 1)
                  else (let comparison = lc itemB itemA
                        in if comparison = 0
                           then (if member = GetUri then Finite 0
                                 else compareItems fz lc currentFilter a b GetUri)
                           else Finite (lc itemB itemA)))
               else Finite (indexA - indexB))
         else js_sub scoreB scoreA)"
  by pat_completeness auto
termination
  by (relation "measure (\<lambda>(fz, lc, currentFilter, a, b, member).
                           case member of GetLabel \<Rightarrow> 1 | GetUri \<Rightarrow> 0)")
     (auto split: member.splits)

text \<open>
  The same method with a bound on the depth of the call stack: \<open>None\<close> when a call
  would need a deeper stack than \<open>depth\<close> frames.
\<close>

fun compareItems_bounded ::
  "nat \<Rightarrow> fuzzy_match \<Rightarrow> locale_compare \<Rightarrow> string \<Rightarrow> QuickOpenItem \<Rightarrow> QuickOpenItem \<Rightarrow> member
     \<Rightarrow> js_number option"
where
  "compareItems_bounded 0 fz lc currentFilter a b member = None"
| "compareItems_bounded (Suc depth) fz lc currentFilter a b member =
     (let query = normalize_str currentFilter;
          itemA = normalize_str (member_string a member);
          itemB = normalize_str (member_string b member);
          scoreA = score fz query itemA;
          scoreB = score fz query itemB
      in if strict_equal scoreA scoreB then
           (let indexA = indexOf itemA query;
                indexB = indexOf itemB query
            in if indexA = indexB then
                 (if length itemA \<noteq> length itemB
                  then Some (if length itemA < length itemB then Finite (- 1) else Finite 1)
                  else (let comparison = lc itemB itemA
                        in if comparison = 0
                           then (if member = GetUri then Some (Finite 0)
                                 else compareItems_bounded depth fz lc currentFilter a b GetUri)
                           else Some (Finite (lc itemB itemA))))
               else Some (Finite (indexA - indexB)))
         else Some (js_sub scoreB scoreA))"

subsection \<open>Instances of the collaborators for closed examples\<close>

text \<open>
  Every general statement below holds for all \<open>fz\<close> and \<open>lc\<close>. A closed example needs
  concrete ones. \<open>fuzzy_match_ref\<close> follows the algorithm of the \<^verbatim>\<open>fuzzy\<close> package
  that \<^verbatim>\<open>@theia/core/shared/fuzzy\<close> re-exports: it walks \<open>str\<close>, advances in the
  pattern at each character that equals the next one of the pattern, sets the running
  score to \<^verbatim>\<open>currScore + (1 + currScore)\<close> at a hit and to \<open>0\<close> at a miss, adds the
  running score to the total at every character, fails when the pattern is not used
  up, and scores \<^verbatim>\<open>Infinity\<close> when the lower-cased string is the lower-cased
  pattern. Both scores are doubles: they are rounded from a run of 53 hits on, and a
  total that overflows is \<^verbatim>\<open>Infinity\<close>.
\<close>

fun fuzzy_walk :: "string \<Rightarrow> string \<Rightarrow> js_number \<Rightarrow> js_number \<Rightarrow> string \<times> js_number" where
  "fuzzy_walk pat [] currScore totalScore = (pat, totalScore)"
| "fuzzy_walk [] (c # s) currScore totalScore =
     fuzzy_walk [] s (Finite 0) (js_add totalScore (Finite 0))"
| "fuzzy_walk (p # pat) (c # s) currScore totalScore =
     (if c = p
      then fuzzy_walk pat s (js_add currScore (js_add (Finite 1) currScore))
             (js_add totalScore (js_add currScore (js_add (Finite 1) currScore)))
      else fuzzy_walk (p # pat) s (Finite 0) (js_add totalScore (Finite 0)))"

definition fuzzy_match_ref :: fuzzy_match where
  "fuzzy_match_ref pattern str =
     (let compareString = toLowerCase str;
          pat = toLowerCase pattern;
          (rest, totalScore) = fuzzy_walk pat compareString (Finite 0) (Finite 0)
      in if rest = []
         then Some (if compareString = pat then Infinity
                    else (case totalScore of Finite n \<Rightarrow> Score n | _ \<Rightarrow> Infinity))
         else None)"

text \<open>
  \<open>localeCompare_ref\<close> orders strings by their code units, with the results \<open>-1\<close>,
  \<open>0\<close> and \<open>1\<close>; on lower-case ASCII letters and digits it is the order of the
  host's collation.
\<close>

fun localeCompare_ref :: locale_compare where
  "localeCompare_ref [] [] = 0"
| "localeCompare_ref [] (d # t) = - 1"
| "localeCompare_ref (c # s) [] = 1"
| "localeCompare_ref (c # s) (d # t) =
     (if (of_char c :: nat) < of_char d then - 1
      else if (of_char d :: nat) < of_char c then 1
      else localeCompare_ref s t)"

section \<open>Properties of \<^verbatim>\<open>splitFilterAndRange\<close>\<close>

subsection \<open>The pattern needs one of its three opening characters\<close>

lemma marker_Nil: "\<forall>c \<in> set s. c \<notin> set ''#:('' \<Longrightarrow> marker s = []"
  by (cases s) auto

lemma matches_here_no_marker:
  assumes "\<forall>c \<in> set s. c \<notin> set ''#:(''"
  shows "matches_here s = []"
proof -
  have "marker s1 = []" if "s1 \<in> set (opt_space s)" for s1
  proof -
    from that have "set s1 \<subseteq> set s" by (cases s) (auto split: if_splits)
    with assms show ?thesis by (intro marker_Nil) blast
  qed
  then show ?thesis by (simp add: matches_here_def)
qed

lemma exec_from_no_marker:
  "\<forall>c \<in> set s. c \<notin> set ''#:('' \<Longrightarrow> exec_from i s = None"
proof (induction s arbitrary: i)
  case Nil
  then show ?case by (simp add: matches_here_no_marker)
next
  case (Cons c s)
  from Cons.prems have "matches_here (c # s) = []" by (rule matches_here_no_marker)
  moreover from Cons have "exec_from (Suc i) s = None" by simp
  ultimately show ?case by simp
qed

subsection \<open>Where a match starts\<close>

lemma exec_from_index:
  "exec_from i s = Some m \<Longrightarrow>
     i \<le> index m \<and> index m - i < length s \<and> matches_here (drop (index m - i) s) \<noteq> []"
proof (induction s arbitrary: i)
  case Nil
  then show ?case by (auto simp: matches_here_def split: list.splits)
next
  case (Cons c s)
  show ?case
  proof (cases "matches_here (c # s)")
    case Nil
    with Cons.prems have "exec_from (Suc i) s = Some m" by simp
    from Cons.IH [OF this] have *: "Suc i \<le> index m" "index m - Suc i < length s"
      "matches_here (drop (index m - Suc i) s) \<noteq> []" by simp_all
    from *(1) have "index m - i = Suc (index m - Suc i)" by simp
    with * show ?thesis by simp
  next
    case (Cons g gs)
    with Cons.prems show ?thesis by (auto split: prod.splits)
  qed
qed

subsection \<open>The line token of a match\<close>

text \<open>
  The first group of a match is a string of digits, so \<open>parseInt\<close> reads all of it;
  the line is not finite exactly when the token is empty or too long for a double.
\<close>

lemma digits_are_digits:
  assumes "(g, r) \<in> set (digits s)"
  shows "(\<forall>c \<in> set g. is_digit c) \<and> s = g @ r"
proof -
  from assms obtain k where k: "k < Suc (length (takeWhile is_digit s))"
    and g: "g = take k s" and r: "r = drop k s"
    by (auto simp: digits_def simp del: upt_Suc)
  have "take k s = take k (takeWhile is_digit s @ dropWhile is_digit s)" by simp
  also from k have "\<dots> = take k (takeWhile is_digit s)" by (simp del: takeWhile_dropWhile_id)
  finally have "set g \<subseteq> set (takeWhile is_digit s)" using g by (simp add: set_take_subset)
  with g r show ?thesis by (auto dest: set_takeWhileD)
qed

lemma matches_here_group1:
  "(g1, g2) \<in> set (matches_here s) \<Longrightarrow> \<exists>g. g1 = Some g \<and> (\<forall>c \<in> set g. is_digit c)"
  by (auto simp: matches_here_def dest: digits_are_digits split: if_splits)

lemma exec_from_group1:
  "exec_from i s = Some m \<Longrightarrow> \<exists>g. group1 m = Some g \<and> (\<forall>c \<in> set g. is_digit c)"
proof (induction s arbitrary: i)
  case Nil
  then show ?case by (auto simp: matches_here_def split: list.splits)
next
  case (Cons c s)
  show ?case
  proof (cases "matches_here (c # s)")
    case Nil
    with Cons show ?thesis by simp
  next
    case (Cons g gs)
    then have "g \<in> set (matches_here (c # s))" by simp
    with matches_here_group1 [of "fst g" "snd g" "c # s"] Cons Cons.prems show ?thesis
      by (auto split: prod.splits)
  qed
qed

lemma parseInt_digits:
  "\<forall>c \<in> set g. is_digit c \<Longrightarrow> parseInt g = (if g = [] then NaN else to_double (decimal_value g))"
  by (simp add: parseInt_def Let_def takeWhile_eq_all_conv [THEN iffD2])

lemma line_token_not_finite:
  assumes "LINE_COLON_PATTERN_exec e = Some m"
  shows "\<not> isFinite (parseInt (or_empty (group1 m))) \<longleftrightarrow>
         or_empty (group1 m) = [] \<or> 2 ^ 1024 \<le> round53 (decimal_value (or_empty (group1 m)))"
proof -
  from assms obtain g where "group1 m = Some g" "\<forall>c \<in> set g. is_digit c"
    using exec_from_group1 [of 0 e m] by (auto simp: LINE_COLON_PATTERN_exec_def)
  then show ?thesis
    by (simp add: or_empty_def parseInt_digits to_double_def Let_def)
qed

subsection \<open>The two results\<close>

lemma splitFilterAndRange_cases:
  "splitFilterAndRange e = \<lparr>filter' = e, range' = None\<rparr> \<or>
   (\<exists>m p. LINE_COLON_PATTERN_exec e = Some m \<and>
      splitFilterAndRange e = \<lparr>filter' = take (index m) e, range' = Some (Range_create p p)\<rparr>)"
  by (auto simp: splitFilterAndRange_def Let_def split: option.splits js_number.splits)

lemma parseInt_empty: "parseInt [] = NaN"
  by (simp add: parseInt_def)

lemma pred_or_zero_safe: "0 < n \<Longrightarrow> n \<le> 2 ^ 53 \<Longrightarrow> pred_or_zero n = n - 1"
  by (simp add: pred_or_zero_def round53_def)

lemma pred_or_zero_nonpos: "n \<le> 0 \<Longrightarrow> pred_or_zero n = 0"
  by (simp add: pred_or_zero_def)

subsection \<open>Line and column tokens\<close>

text \<open>
  C4. A recognized line token is 1-based and becomes a 0-based line; the column token
  is optional and becomes a 0-based column that defaults to 0. For every match with a
  finite line \<open>l\<close> the result is the point at line \<open>pred_or_zero l\<close>, which is
  \<open>l - 1\<close> for a positive \<open>l\<close> (up to \<open>2^53\<close>, where the difference is exact) and
  \<open>0\<close> otherwise, and at the column computed in the same way from the second group, or
  \<open>0\<close> when that group is absent or empty. \<^verbatim>\<open>foo.ts:42\<close> gives the filter
  \<^verbatim>\<open>foo.ts\<close> and the point \<open>(41, 0)\<close>; \<^verbatim>\<open>foo.ts:42:7\<close> and
  \<^verbatim>\<open>foo.ts:42,7\<close> both give the filter \<^verbatim>\<open>foo.ts\<close> and the point \<open>(41, 6)\<close>.
\<close>

theorem splitFilterAndRange_line_column:
  "(\<forall>m l. LINE_COLON_PATTERN_exec e = Some m \<and> parseInt (or_empty (group1 m)) = Finite l \<longrightarrow>
      splitFilterAndRange e =
        \<lparr>filter' = take (index m) e,
         range' = Some (Range_create
           (Position_create (pred_or_zero l)
              (case parseInt (or_empty (group2 m)) of Finite column \<Rightarrow> pred_or_zero column | _ \<Rightarrow> 0))
           (Position_create (pred_or_zero l)
              (case parseInt (or_empty (group2 m)) of Finite column \<Rightarrow> pred_or_zero column | _ \<Rightarrow> 0)))\<rparr>)
   \<and> (0 < n \<and> n \<le> 2 ^ 53 \<longrightarrow> pred_or_zero n = n - 1)
   \<and> (n \<le> 0 \<longrightarrow> pred_or_zero n = 0)
   \<and> parseInt (or_empty None) = NaN
   \<and> splitFilterAndRange ''foo.ts:42'' =
     \<lparr>filter' = ''foo.ts'',
      range' = Some (Range_create (Position_create 41 0) (Position_create 41 0))\<rparr>
   \<and> splitFilterAndRange ''foo.ts:42:7'' =
     \<lparr>filter' = ''foo.ts'',
      range' = Some (Range_create (Position_create 41 6) (Position_create 41 6))\<rparr>
   \<and> splitFilterAndRange ''foo.ts:42,7'' =
     \<lparr>filter' = ''foo.ts'',
      range' = Some (Range_create (Position_create 41 6) (Position_create 41 6))\<rparr>"
proof (intro conjI allI impI)
  fix m l
  assume "LINE_COLON_PATTERN_exec e = Some m \<and> parseInt (or_empty (group1 m)) = Finite l"
  then show "splitFilterAndRange e =
        \<lparr>filter' = take (index m) e,
         range' = Some (Range_create
           (Position_create (pred_or_zero l)
              (case parseInt (or_empty (group2 m)) of Finite column \<Rightarrow> pred_or_zero column | _ \<Rightarrow> 0))
           (Position_create (pred_or_zero l)
              (case parseInt (or_empty (group2 m)) of Finite column \<Rightarrow> pred_or_zero column | _ \<Rightarrow> 0)))\<rparr>"
    by (simp add: splitFilterAndRange_def Let_def)
next
  assume "0 < n \<and> n \<le> 2 ^ 53"
  then show "pred_or_zero n = n - 1" by (simp add: pred_or_zero_safe)
next
  assume "n \<le> 0"
  then show "pred_or_zero n = 0" by (rule pred_or_zero_nonpos)
next
  show "parseInt (or_empty None) = NaN" by (simp add: or_empty_def parseInt_def)
next
  show "splitFilterAndRange ''foo.ts:42'' =
     \<lparr>filter' = ''foo.ts'',
      range' = Some (Range_create (Position_create 41 0) (Position_create 41 0))\<rparr>"
    by code_simp
next
  show "splitFilterAndRange ''foo.ts:42:7'' =
     \<lparr>filter' = ''foo.ts'',
      range' = Some (Range_create (Position_create 41 6) (Position_create 41 6))\<rparr>"
    by code_simp
next
  show "splitFilterAndRange ''foo.ts:42,7'' =
     \<lparr>filter' = ''foo.ts'',
      range' = Some (Range_create (Position_create 41 6) (Position_create 41 6))\<rparr>"
    by code_simp
qed

theorem splitFilterAndRange_line_column_witness:
  "LINE_COLON_PATTERN_exec ''x (line 7,3)'' = Some \<lparr>index = 1, group1 = Some ''7'', group2 = Some ''3''\<rparr>
   \<and> splitFilterAndRange ''x (line 7,3)'' =
     \<lparr>filter' = ''x'', range' = Some (Range_create (Position_create 6 2) (Position_create 6 2))\<rparr>
   \<and> pred_or_zero 7 = 6 \<and> pred_or_zero 0 = 0"
proof -
  have m: "LINE_COLON_PATTERN_exec ''x (line 7,3)'' =
      Some \<lparr>index = 1, group1 = Some ''7'', group2 = Some ''3''\<rparr>"
    by code_simp
  have p: "parseInt ''7'' = Finite 7" "parseInt ''3'' = Finite 3"
    by code_simp+
  from splitFilterAndRange_line_column [of "''x (line 7,3)''" 7]
    splitFilterAndRange_line_column [of "''x (line 7,3)''" 3]
    splitFilterAndRange_line_column [of "''x (line 7,3)''" 0] m p
  show ?thesis by (simp add: or_empty_def)
qed

subsection \<open>No finite line number\<close>

text \<open>
  C5. When no finite line number is recognized at the end of the input, the whole
  input is the filter and there is no range: when the pattern does not match (in
  particular when none of \<^verbatim>\<open>#\<close>, \<^verbatim>\<open>:\<close>, \<^verbatim>\<open>(\<close> occurs in the input),
  when the line token of the match does not parse to a finite number, and in particular
  when that token is empty (a bare \<^verbatim>\<open>#\<close>, \<^verbatim>\<open>:\<close> or \<^verbatim>\<open>(\<close>). The function
  is total: none of these inputs is an error. \<^verbatim>\<open>foo.ts#\<close> is returned unchanged.
\<close>

theorem splitFilterAndRange_no_finite_line:
  "(LINE_COLON_PATTERN_exec e = None \<longrightarrow>
      splitFilterAndRange e = \<lparr>filter' = e, range' = None\<rparr>)
   \<and> (\<forall>m. LINE_COLON_PATTERN_exec e = Some m \<and> \<not> isFinite (parseInt (or_empty (group1 m)))
          \<longrightarrow> splitFilterAndRange e = \<lparr>filter' = e, range' = None\<rparr>)
   \<and> (\<forall>m. LINE_COLON_PATTERN_exec e = Some m \<and> or_empty (group1 m) = []
          \<longrightarrow> splitFilterAndRange e = \<lparr>filter' = e, range' = None\<rparr>)
   \<and> ((\<forall>c \<in> set e. c \<notin> set ''#:('') \<longrightarrow>
          splitFilterAndRange e = \<lparr>filter' = e, range' = None\<rparr>)
   \<and> splitFilterAndRange ''foo.ts#'' = \<lparr>filter' = ''foo.ts#'', range' = None\<rparr>"
proof (intro conjI allI impI)
  show "splitFilterAndRange ''foo.ts#'' = \<lparr>filter' = ''foo.ts#'', range' = None\<rparr>"
    by code_simp
next
  assume "LINE_COLON_PATTERN_exec e = None"
  then show "splitFilterAndRange e = \<lparr>filter' = e, range' = None\<rparr>"
    by (simp add: splitFilterAndRange_def)
next
  fix m
  assume "LINE_COLON_PATTERN_exec e = Some m \<and> \<not> isFinite (parseInt (or_empty (group1 m)))"
  then show "splitFilterAndRange e = \<lparr>filter' = e, range' = None\<rparr>"
    by (auto simp: splitFilterAndRange_def split: js_number.splits)
next
  fix m
  assume "LINE_COLON_PATTERN_exec e = Some m \<and> or_empty (group1 m) = []"
  then show "splitFilterAndRange e = \<lparr>filter' = e, range' = None\<rparr>"
    by (simp add: splitFilterAndRange_def parseInt_empty)
next
  assume "\<forall>c \<in> set e. c \<notin> set ''#:(''"
  then have "LINE_COLON_PATTERN_exec e = None"
    unfolding LINE_COLON_PATTERN_exec_def by (rule exec_from_no_marker)
  then show "splitFilterAndRange e = \<lparr>filter' = e, range' = None\<rparr>"
    by (simp add: splitFilterAndRange_def)
qed

theorem splitFilterAndRange_no_finite_line_witness:
  "LINE_COLON_PATTERN_exec ''foo.ts'' = None
   \<and> splitFilterAndRange ''foo.ts'' = \<lparr>filter' = ''foo.ts'', range' = None\<rparr>
   \<and> LINE_COLON_PATTERN_exec ''foo.ts:'' = Some \<lparr>index = 6, group1 = Some [], group2 = None\<rparr>
   \<and> splitFilterAndRange ''foo.ts:'' = \<lparr>filter' = ''foo.ts:'', range' = None\<rparr>"
proof -
  have none: "LINE_COLON_PATTERN_exec ''foo.ts'' = None"
    by code_simp
  have bare: "LINE_COLON_PATTERN_exec ''foo.ts:'' =
      Some \<lparr>index = 6, group1 = Some [], group2 = None\<rparr>"
    by code_simp
  from none splitFilterAndRange_no_finite_line [of "''foo.ts''"]
  have "splitFilterAndRange ''foo.ts'' = \<lparr>filter' = ''foo.ts'', range' = None\<rparr>"
    by blast
  moreover from bare
    splitFilterAndRange_no_finite_line [of "''foo.ts:''"]
  have "splitFilterAndRange ''foo.ts:'' = \<lparr>filter' = ''foo.ts:'', range' = None\<rparr>"
    by (simp add: or_empty_def)
  ultimately show ?thesis using none bare by simp
qed

subsection \<open>The filter is a prefix and the range is a point\<close>

text \<open>
  C6. For every input, the filter is a prefix of the input: the whole input when no
  range is returned, and otherwise the part before the index at which the pattern's
  match starts (the rest of the input from that index on matches the pattern up to the
  end). A range that is present starts and ends at the same position.
\<close>

theorem splitFilterAndRange_prefix_and_point:
  "prefix (filter' (splitFilterAndRange e)) e
   \<and> (range' (splitFilterAndRange e) = None \<longrightarrow> filter' (splitFilterAndRange e) = e)
   \<and> (\<forall>rg. range' (splitFilterAndRange e) = Some rg \<longrightarrow>
         range_start rg = range_end rg
         \<and> (\<exists>m. LINE_COLON_PATTERN_exec e = Some m
                \<and> index m < length e
                \<and> matches_here (drop (index m) e) \<noteq> []
                \<and> filter' (splitFilterAndRange e) = take (index m) e))"
proof -
  from splitFilterAndRange_cases [of e] show ?thesis
  proof
    assume "splitFilterAndRange e = \<lparr>filter' = e, range' = None\<rparr>"
    then show ?thesis by simp
  next
    assume "\<exists>m p. LINE_COLON_PATTERN_exec e = Some m \<and>
      splitFilterAndRange e = \<lparr>filter' = take (index m) e, range' = Some (Range_create p p)\<rparr>"
    then obtain m p where m: "LINE_COLON_PATTERN_exec e = Some m"
      and r: "splitFilterAndRange e =
                \<lparr>filter' = take (index m) e, range' = Some (Range_create p p)\<rparr>"
      by blast
    from m have "index m < length e \<and> matches_here (drop (index m) e) \<noteq> []"
      using exec_from_index [of 0 e m] by (simp add: LINE_COLON_PATTERN_exec_def)
    with m r show ?thesis by (auto simp: Range_create_def take_is_prefix)
  qed
qed

theorem splitFilterAndRange_prefix_and_point_witness:
  "range' (splitFilterAndRange ''foo.ts:42:7'') =
     Some (Range_create (Position_create 41 6) (Position_create 41 6))
   \<and> range_start (Range_create (Position_create 41 6) (Position_create 41 6)) =
     range_end (Range_create (Position_create 41 6) (Position_create 41 6))
   \<and> filter' (splitFilterAndRange ''foo.ts:42:7'') = ''foo.ts''
   \<and> prefix (filter' (splitFilterAndRange ''foo.ts:42:7'')) ''foo.ts:42:7''"
proof -
  have r: "splitFilterAndRange ''foo.ts:42:7'' =
     \<lparr>filter' = ''foo.ts'',
      range' = Some (Range_create (Position_create 41 6) (Position_create 41 6))\<rparr>"
    by code_simp
  then have "range' (splitFilterAndRange ''foo.ts:42:7'') =
     Some (Range_create (Position_create 41 6) (Position_create 41 6))"
    by simp
  with splitFilterAndRange_prefix_and_point [of "''foo.ts:42:7''"] r show ?thesis
    by simp
qed

section \<open>Properties of \<^verbatim>\<open>compareItems\<close>\<close>

subsection \<open>Double arithmetic on small integers\<close>

text \<open>
  Below \<open>2^53\<close> in magnitude nothing is rounded: sums and differences are the
  mathematical ones. A sum or difference of finite numbers is never \<^verbatim>\<open>NaN\<close>.
\<close>

lemma to_double_exact: "n < 2 ^ 53 \<Longrightarrow> to_double n = Finite n"
  by (simp add: to_double_def round53_def)

lemma to_double_cases: "(\<exists>v. to_double n = Finite v) \<or> to_double n = PosInfinity"
  by (simp add: to_double_def Let_def)

lemma round_number_exact: "\<bar>n\<bar> < 2 ^ 53 \<Longrightarrow> round_number n = Finite n"
  by (simp add: round_number_def to_double_exact)

lemma round_number_not_NaN: "round_number n \<noteq> NaN"
  using to_double_cases [of n] to_double_cases [of "- n"]
  by (auto simp: round_number_def split: js_number.splits)

lemma js_add_exact: "\<bar>x + y\<bar> < 2 ^ 53 \<Longrightarrow> js_add (Finite x) (Finite y) = Finite (x + y)"
  by (simp add: round_number_exact)

lemma js_sub_exact: "\<bar>y - x\<bar> < 2 ^ 53 \<Longrightarrow> js_sub (Finite y) (Finite x) = Finite (y - x)"
  by (simp add: js_sub_def round_number_exact)

lemma js_sub_Finite: "js_sub (Finite y) (Finite x) = round_number (y - x)"
  by (simp add: js_sub_def)

subsection \<open>The score\<close>

lemma flags_fold:
  "foldl (\<lambda>(exactMatch, partialMatch) part.
            (exactMatch \<and> P part, partialMatch \<or> P part)) (e, p) parts =
   (e \<and> (\<forall>part \<in> set parts. P part), p \<or> (\<exists>part \<in> set parts. P part))"
  by (induction parts arbitrary: e p) auto

lemma score_eq:
  "score fz query str =
     (if \<forall>part \<in> set (split_whitespace query). includes_str str part
      then js_add (Finite (case fz (concat (split_whitespace query)) str of
                             None \<Rightarrow> 0 | Some Infinity \<Rightarrow> Scores_max | Some (Score n) \<Rightarrow> n))
             (Finite Scores_exact)
      else if \<exists>part \<in> set (split_whitespace query). includes_str str part
      then js_add (Finite (case fz (concat (split_whitespace query)) str of
                             None \<Rightarrow> 0 | Some Infinity \<Rightarrow> Scores_max | Some (Score n) \<Rightarrow> n))
             (Finite Scores_partial)
      else Finite (case fz (concat (split_whitespace query)) str of
                     None \<Rightarrow> 0 | Some Infinity \<Rightarrow> Scores_max | Some (Score n) \<Rightarrow> n))"
  unfolding score_def Let_def flags_fold
  by (simp split: option.splits fuzzy_score.splits)

lemma score_not_NaN: "score fz query str \<noteq> NaN"
  unfolding score_eq by (simp add: round_number_not_NaN)

lemma strict_equal_score:
  "strict_equal (score fz query s) (score fz query t) \<longleftrightarrow> score fz query s = score fz query t"
  by (simp add: strict_equal_def score_not_NaN)

lemma indexOf_empty: "indexOf s [] = 0"
  by (cases s) (simp_all add: indexOf_def)

lemma includes_str_empty: "includes_str s []"
  by (simp add: includes_str_def indexOf_empty)

lemma split_whitespace_Nil: "split_whitespace [] = [[]]"
  by (simp add: split_whitespace_def)

text \<open>
  \<open>includes_str\<close> is the sublist relation of the library, and an index is \<open>-1\<close> or a
  position of the string.
\<close>

lemma indexOf_from_found:
  "0 \<le> i \<Longrightarrow> indexOf_from i s p \<noteq> - 1 \<longleftrightarrow> sublist p s"
proof (induction s arbitrary: i)
  case Nil
  then show ?case by auto
next
  case (Cons c s)
  show ?case
  proof (cases "prefix p (c # s)")
    case True
    with Cons.prems show ?thesis by (auto dest: prefix_imp_sublist)
  next
    case False
    from Cons.prems have "0 \<le> i + 1" by simp
    from Cons.IH [OF this] False show ?thesis
      by (cases p) (auto simp: sublist_Cons_right)
  qed
qed

lemma includes_str_sublist: "includes_str s p \<longleftrightarrow> sublist p s"
  by (simp add: includes_str_def indexOf_def indexOf_from_found)

lemma indexOf_from_range:
  "0 \<le> i \<Longrightarrow>
   indexOf_from i s p = - 1 \<or> (i \<le> indexOf_from i s p \<and> indexOf_from i s p \<le> i + int (length s))"
proof (induction s arbitrary: i)
  case Nil
  then show ?case by auto
next
  case (Cons c s)
  from Cons.prems have "0 \<le> i + 1" by simp
  from Cons.IH [OF this] Cons.prems show ?case by auto
qed

lemma indexOf_range:
  "indexOf s p = - 1 \<or> (0 \<le> indexOf s p \<and> indexOf s p \<le> int (length s))"
  using indexOf_from_range [of 0 s p] by (simp add: indexOf_def)

subsection \<open>The steps of the comparison\<close>

text \<open>
  The defining equation of \<open>compareItems\<close> is recursive; it is unfolded one call at a
  time, one lemma for each way the method returns. Scores are never \<^verbatim>\<open>NaN\<close>, so
  \<^verbatim>\<open>scoreA === scoreB\<close> is the equality of the two scores.
\<close>

declare compareItems.simps [simp del]

lemma compareItems_score_step:
  "score fz (normalize_str flt) (normalize_str (member_string a m)) \<noteq>
     score fz (normalize_str flt) (normalize_str (member_string b m)) \<Longrightarrow>
   compareItems fz lc flt a b m =
     js_sub (score fz (normalize_str flt) (normalize_str (member_string b m)))
            (score fz (normalize_str flt) (normalize_str (member_string a m)))"
  by (subst compareItems.simps) (simp add: Let_def strict_equal_score)

lemma compareItems_index_step:
  "score fz (normalize_str flt) (normalize_str (member_string a m)) =
     score fz (normalize_str flt) (normalize_str (member_string b m)) \<Longrightarrow>
   indexOf (normalize_str (member_string a m)) (normalize_str flt) \<noteq>
     indexOf (normalize_str (member_string b m)) (normalize_str flt) \<Longrightarrow>
   compareItems fz lc flt a b m =
     Finite (indexOf (normalize_str (member_string a m)) (normalize_str flt) -
             indexOf (normalize_str (member_string b m)) (normalize_str flt))"
  by (subst compareItems.simps) (simp add: Let_def strict_equal_def score_not_NaN)

lemma compareItems_length_step:
  "score fz (normalize_str flt) (normalize_str (member_string a m)) =
     score fz (normalize_str flt) (normalize_str (member_string b m)) \<Longrightarrow>
   indexOf (normalize_str (member_string a m)) (normalize_str flt) =
     indexOf (normalize_str (member_string b m)) (normalize_str flt) \<Longrightarrow>
   length (normalize_str (member_string a m)) \<noteq> length (normalize_str (member_string b m)) \<Longrightarrow>
   compareItems fz lc flt a b m =
     (if length (normalize_str (member_string a m)) < length (normalize_str (member_string b m))
      then Finite (- 1) else Finite 1)"
  by (subst compareItems.simps) (simp add: Let_def strict_equal_def score_not_NaN)

lemma compareItems_locale_step:
  "score fz (normalize_str flt) (normalize_str (member_string a m)) =
     score fz (normalize_str flt) (normalize_str (member_string b m)) \<Longrightarrow>
   indexOf (normalize_str (member_string a m)) (normalize_str flt) =
     indexOf (normalize_str (member_string b m)) (normalize_str flt) \<Longrightarrow>
   length (normalize_str (member_string a m)) = length (normalize_str (member_string b m)) \<Longrightarrow>
   lc (normalize_str (member_string b m)) (normalize_str (member_string a m)) \<noteq> 0 \<Longrightarrow>
   compareItems fz lc flt a b m =
     Finite (lc (normalize_str (member_string b m)) (normalize_str (member_string a m)))"
  by (subst compareItems.simps) (simp add: Let_def strict_equal_def score_not_NaN)

lemma compareItems_tie_step:
  "score fz (normalize_str flt) (normalize_str (member_string a m)) =
     score fz (normalize_str flt) (normalize_str (member_string b m)) \<Longrightarrow>
   indexOf (normalize_str (member_string a m)) (normalize_str flt) =
     indexOf (normalize_str (member_string b m)) (normalize_str flt) \<Longrightarrow>
   length (normalize_str (member_string a m)) = length (normalize_str (member_string b m)) \<Longrightarrow>
   lc (normalize_str (member_string b m)) (normalize_str (member_string a m)) = 0 \<Longrightarrow>
   compareItems fz lc flt a b m =
     (if m = GetUri then Finite 0 else compareItems fz lc flt a b GetUri)"
  by (subst compareItems.simps) (simp add: Let_def strict_equal_def score_not_NaN)

subsection \<open>Bounded recursion\<close>

lemma compareItems_bounded_uri:
  "compareItems_bounded (Suc depth) fz lc flt a b GetUri = Some (compareItems fz lc flt a b GetUri)"
  by (subst compareItems.simps) (simp add: Let_def)

lemma compareItems_bounded_any:
  "compareItems_bounded (Suc (Suc depth)) fz lc flt a b m = Some (compareItems fz lc flt a b m)"
  by (subst compareItems.simps, subst compareItems_bounded.simps)
     (simp add: Let_def compareItems_bounded_uri del: compareItems_bounded.simps)

lemma compareItems_same_uri:
  "(\<And>s. lc s s = 0) \<Longrightarrow> compareItems fz lc flt a a GetUri = Finite 0"
  by (subst compareItems.simps) (simp add: Let_def strict_equal_def score_not_NaN)

lemma compareItems_same:
  "(\<And>s. lc s s = 0) \<Longrightarrow> compareItems fz lc flt a a m = Finite 0"
  by (subst compareItems.simps)
     (simp add: Let_def strict_equal_def score_not_NaN compareItems_same_uri)

lemma localeCompare_ref_same: "localeCompare_ref s s = 0"
  by (induction s) simp_all

subsection \<open>The score and its bonus\<close>

text \<open>
  C3 (amended). The score of a string is the fuzzy contribution (0 when the primitive
  reports no match, 1000 when it reports \<^verbatim>\<open>Infinity\<close>, its score otherwise) plus,
  as a sum of JavaScript numbers, 500 when every piece of the filter split at white
  space occurs in the string and 250 when at least one piece but not every piece
  occurs; when no piece occurs it is the bare contribution. The sum is the
  mathematical one whenever it is below \<open>2^53\<close> in magnitude, and the nearest double
  otherwise.
\<close>

theorem score_exact_partial_fuzzy:
  "(let parts = split_whitespace query;
        fuzzy = (case fz (concat parts) str of
                   None \<Rightarrow> 0 | Some Infinity \<Rightarrow> 1000 | Some (Score n) \<Rightarrow> n);
        bonus = (if \<forall>part \<in> set parts. includes_str str part then 500
                 else if \<exists>part \<in> set parts. includes_str str part then 250
                 else 0)
    in score fz query str =
         (if bonus = 0 then Finite fuzzy else js_add (Finite fuzzy) (Finite bonus))
     \<and> (\<bar>fuzzy + bonus\<bar> < 2 ^ 53 \<longrightarrow> score fz query str = Finite (fuzzy + bonus)))"
proof -
  define parts where "parts = split_whitespace query"
  define fuzzy where "fuzzy = (case fz (concat parts) str of
                   None \<Rightarrow> 0 | Some Infinity \<Rightarrow> 1000 | Some (Score n) \<Rightarrow> n)"
  define bonus :: int where "bonus = (if \<forall>part \<in> set parts. includes_str str part then 500
                 else if \<exists>part \<in> set parts. includes_str str part then 250
                 else 0)"
  have sc: "score fz query str =
         (if bonus = 0 then Finite fuzzy else js_add (Finite fuzzy) (Finite bonus))"
    unfolding score_eq Scores_max_def Scores_exact_def Scores_partial_def
      bonus_def fuzzy_def parts_def
    by simp
  have "score fz query str = Finite (fuzzy + bonus)" if "\<bar>fuzzy + bonus\<bar> < 2 ^ 53"
  proof (cases "bonus = 0")
    case True
    with sc show ?thesis by simp
  next
    case False
    with sc have "score fz query str = js_add (Finite fuzzy) (Finite bonus)" by simp
    also from that have "\<dots> = Finite (fuzzy + bonus)" by (rule js_add_exact)
    finally show ?thesis .
  qed
  with sc show ?thesis
    unfolding Let_def bonus_def fuzzy_def parts_def by blast
qed

theorem score_exact_partial_fuzzy_witness:
  "score fuzzy_match_ref ''ab'' ''ab'' = Finite 1500
   \<and> score fuzzy_match_ref ''a b'' ''a b'' = Finite 502
   \<and> score fuzzy_match_ref ''a x'' ''a_b'' = Finite 250
   \<and> score fuzzy_match_ref ''x'' ''a_b'' = Finite 0"
proof (intro conjI)
  have "split_whitespace ''ab'' = [''ab'']" "includes_str ''ab'' ''ab''"
    "fuzzy_match_ref ''ab'' ''ab'' = Some Infinity"
    by code_simp+
  with score_exact_partial_fuzzy [of "''ab''" fuzzy_match_ref "''ab''"]
  show "score fuzzy_match_ref ''ab'' ''ab'' = Finite 1500" by (simp add: Let_def round_number_exact)
  have "split_whitespace ''a b'' = [''a'', ''b'']" "includes_str ''a b'' ''a''"
    "includes_str ''a b'' ''b''" "fuzzy_match_ref ''ab'' ''a b'' = Some (Score 2)"
    by code_simp+
  with score_exact_partial_fuzzy [of "''a b''" fuzzy_match_ref "''a b''"]
  show "score fuzzy_match_ref ''a b'' ''a b'' = Finite 502" by (simp add: Let_def round_number_exact)
  have "split_whitespace ''a x'' = [''a'', ''x'']" "includes_str ''a_b'' ''a''"
    "\<not> includes_str ''a_b'' ''x''" "fuzzy_match_ref ''ax'' ''a_b'' = None"
    by code_simp+
  with score_exact_partial_fuzzy [of "''a x''" fuzzy_match_ref "''a_b''"]
  show "score fuzzy_match_ref ''a x'' ''a_b'' = Finite 250" by (simp add: Let_def round_number_exact)
  have "split_whitespace ''x'' = [''x'']" "\<not> includes_str ''a_b'' ''x''"
    "fuzzy_match_ref ''x'' ''a_b'' = None"
    by code_simp+
  with score_exact_partial_fuzzy [of "''x''" fuzzy_match_ref "''a_b''"]
  show "score fuzzy_match_ref ''x'' ''a_b'' = Finite 0" by (simp add: Let_def round_number_exact)
qed

text \<open>
  C3 as stated fails: for the filter of 54 letters \<^verbatim>\<open>a\<close> and the label of the same
  54 letters followed by \<^verbatim>\<open>b\<close>, the filter is the only piece and occurs in the
  label, the fuzzy score is \<open>36028797018963912\<close>, and the score is that number plus
  \<open>504\<close>, not plus \<open>500\<close>: the sum is rounded to a double.
\<close>

theorem score_bonus_counterexample:
  "split_whitespace ''aaaaaaaaaaaaaaaaaaaaaaaaaaaaaaaaaaaaaaaaaaaaaaaaaaaaaa'' = [''aaaaaaaaaaaaaaaaaaaaaaaaaaaaaaaaaaaaaaaaaaaaaaaaaaaaaa'']
   \<and> includes_str ''aaaaaaaaaaaaaaaaaaaaaaaaaaaaaaaaaaaaaaaaaaaaaaaaaaaaaab'' ''aaaaaaaaaaaaaaaaaaaaaaaaaaaaaaaaaaaaaaaaaaaaaaaaaaaaaa''
   \<and> fuzzy_match_ref ''aaaaaaaaaaaaaaaaaaaaaaaaaaaaaaaaaaaaaaaaaaaaaaaaaaaaaa'' ''aaaaaaaaaaaaaaaaaaaaaaaaaaaaaaaaaaaaaaaaaaaaaaaaaaaaaab'' = Some (Score 36028797018963912)
   \<and> score fuzzy_match_ref ''aaaaaaaaaaaaaaaaaaaaaaaaaaaaaaaaaaaaaaaaaaaaaaaaaaaaaa'' ''aaaaaaaaaaaaaaaaaaaaaaaaaaaaaaaaaaaaaaaaaaaaaaaaaaaaaab'' = Finite (36028797018963912 + 504)
   \<and> score fuzzy_match_ref ''aaaaaaaaaaaaaaaaaaaaaaaaaaaaaaaaaaaaaaaaaaaaaaaaaaaaaa'' ''aaaaaaaaaaaaaaaaaaaaaaaaaaaaaaaaaaaaaaaaaaaaaaaaaaaaaab'' \<noteq> Finite (36028797018963912 + 500)"
proof -
  have s: "split_whitespace ''aaaaaaaaaaaaaaaaaaaaaaaaaaaaaaaaaaaaaaaaaaaaaaaaaaaaaa'' = [''aaaaaaaaaaaaaaaaaaaaaaaaaaaaaaaaaaaaaaaaaaaaaaaaaaaaaa'']"
    by code_simp
  have i: "includes_str ''aaaaaaaaaaaaaaaaaaaaaaaaaaaaaaaaaaaaaaaaaaaaaaaaaaaaaab'' ''aaaaaaaaaaaaaaaaaaaaaaaaaaaaaaaaaaaaaaaaaaaaaaaaaaaaaa''"
    by code_simp
  have f: "fuzzy_match_ref ''aaaaaaaaaaaaaaaaaaaaaaaaaaaaaaaaaaaaaaaaaaaaaaaaaaaaaa'' ''aaaaaaaaaaaaaaaaaaaaaaaaaaaaaaaaaaaaaaaaaaaaaaaaaaaaaab'' = Some (Score 36028797018963912)"
    by code_simp
  have v: "score fuzzy_match_ref ''aaaaaaaaaaaaaaaaaaaaaaaaaaaaaaaaaaaaaaaaaaaaaaaaaaaaaa'' ''aaaaaaaaaaaaaaaaaaaaaaaaaaaaaaaaaaaaaaaaaaaaaaaaaaaaaab'' = Finite 36028797018964416"
    by code_simp
  from s i f v show ?thesis by simp
qed

subsection \<open>At most one recursive call\<close>

text \<open>
  C9. The method calls itself at most once: a call stack of two frames is enough for
  every pair of items, every filter and either key, and one frame is enough under the
  \<open>uri\<close> key. Under the \<open>uri\<close> key a pair that ties at every step compares as \<open>0\<close>
  without a further call. A pair with the same label and the same URI is compared
  within two frames, and compares as \<open>0\<close> when the collation finds a string equivalent
  to itself.
\<close>

theorem compareItems_recursion_at_most_once:
  "compareItems_bounded (Suc (Suc depth)) fz lc currentFilter a b member =
     Some (compareItems fz lc currentFilter a b member)
   \<and> compareItems_bounded (Suc depth) fz lc currentFilter a b GetUri =
     Some (compareItems fz lc currentFilter a b GetUri)
   \<and> (let query = normalize_str currentFilter;
           itemA = normalize_str (uri_path a);
           itemB = normalize_str (uri_path b)
       in score fz query itemA = score fz query itemB \<longrightarrow>
          indexOf itemA query = indexOf itemB query \<longrightarrow>
          length itemA = length itemB \<longrightarrow>
          lc itemB itemA = 0 \<longrightarrow>
          compareItems fz lc currentFilter a b GetUri = Finite 0)
   \<and> (\<exists>r. compareItems_bounded (Suc (Suc 0)) fz lc currentFilter a a GetLabel = Some r)
   \<and> ((\<forall>s. lc s s = 0) \<longrightarrow>
        compareItems_bounded (Suc (Suc 0)) fz lc currentFilter a a GetLabel = Some (Finite 0))"
proof (intro conjI)
  show "compareItems_bounded (Suc (Suc depth)) fz lc currentFilter a b member =
     Some (compareItems fz lc currentFilter a b member)"
    by (rule compareItems_bounded_any)
  show "compareItems_bounded (Suc depth) fz lc currentFilter a b GetUri =
     Some (compareItems fz lc currentFilter a b GetUri)"
    by (rule compareItems_bounded_uri)
  show "let query = normalize_str currentFilter;
           itemA = normalize_str (uri_path a);
           itemB = normalize_str (uri_path b)
       in score fz query itemA = score fz query itemB \<longrightarrow>
          indexOf itemA query = indexOf itemB query \<longrightarrow>
          length itemA = length itemB \<longrightarrow>
          lc itemB itemA = 0 \<longrightarrow>
          compareItems fz lc currentFilter a b GetUri = Finite 0"
    using compareItems_tie_step [of fz currentFilter a GetUri b lc]
    by (simp add: Let_def)
  show "\<exists>r. compareItems_bounded (Suc (Suc 0)) fz lc currentFilter a a GetLabel = Some r"
    using compareItems_bounded_any [of 0 fz lc currentFilter a a GetLabel] by blast
  show "(\<forall>s. lc s s = 0) \<longrightarrow>
        compareItems_bounded (Suc (Suc 0)) fz lc currentFilter a a GetLabel = Some (Finite 0)"
    using compareItems_bounded_any [of 0 fz lc currentFilter a a GetLabel]
      compareItems_same [of lc fz currentFilter a GetLabel]
    by simp
qed

theorem compareItems_recursion_at_most_once_witness:
  "compareItems_bounded (Suc (Suc 0)) fuzzy_match_ref localeCompare_ref ''a''
     \<lparr>label = ''ab'', uri_path = ''/w/ab''\<rparr> \<lparr>label = ''ab'', uri_path = ''/w/ab''\<rparr> GetLabel =
   Some (Finite 0)
   \<and> compareItems fuzzy_match_ref localeCompare_ref ''a''
     \<lparr>label = ''ab'', uri_path = ''/w/ab''\<rparr> \<lparr>label = ''ab'', uri_path = ''/w/ab''\<rparr> GetUri =
   Finite 0
   \<and> compareItems_bounded (Suc 0) fuzzy_match_ref localeCompare_ref ''a''
     \<lparr>label = ''ab'', uri_path = ''/w/ab''\<rparr> \<lparr>label = ''ab'', uri_path = ''/w/ab''\<rparr> GetLabel =
   None"
proof -
  have "compareItems_bounded (Suc 0) fuzzy_match_ref localeCompare_ref ''a''
     \<lparr>label = ''ab'', uri_path = ''/w/ab''\<rparr> \<lparr>label = ''ab'', uri_path = ''/w/ab''\<rparr> GetLabel =
   None"
    by code_simp
  moreover have "localeCompare_ref (normalize_str ''/w/ab'') (normalize_str ''/w/ab'') = 0"
    by (rule localeCompare_ref_same)
  ultimately show ?thesis
    using compareItems_recursion_at_most_once [of 0 fuzzy_match_ref localeCompare_ref "''a''"
        "\<lparr>label = ''ab'', uri_path = ''/w/ab''\<rparr>" "\<lparr>label = ''ab'', uri_path = ''/w/ab''\<rparr>" GetLabel]
    by (auto simp add: Let_def localeCompare_ref_same simp del: compareItems_bounded.simps)
qed

subsection \<open>Reflexivity\<close>

text \<open>
  C8. Comparing an item with itself under the \<open>label\<close> key returns \<open>0\<close>, for every
  item and every filter; the collation \<open>lc\<close> is taken to find every string equivalent
  to itself, as \<^verbatim>\<open>localeCompare\<close> does.
\<close>

theorem compareItems_reflexive:
  assumes "\<And>s. lc s s = 0"
  shows "compareItems fz lc currentFilter a a GetLabel = Finite 0"
  using assms by (rule compareItems_same)

theorem compareItems_reflexive_witness:
  "compareItems fuzzy_match_ref localeCompare_ref ''a''
     \<lparr>label = ''ab'', uri_path = ''/w/ab''\<rparr> \<lparr>label = ''ab'', uri_path = ''/w/ab''\<rparr> GetLabel =
   Finite 0"
  by (rule compareItems_reflexive) (rule localeCompare_ref_same)

subsection \<open>Length, then the collation\<close>

text \<open>
  C7. When the two scores are equal and the two indices of the filter are equal, the
  item with the shorter normalized string sorts first (the result is \<open>-1\<close> when it is
  \<open>a\<close>, \<open>1\<close> when it is \<open>b\<close>); when the lengths are equal too and the collation tells
  the strings apart, the result is \<^verbatim>\<open>itemB.localeCompare(itemA)\<close>, which is
  negative, so that \<open>a\<close> sorts first, exactly when \<open>a\<close>'s string is the later one.
\<close>

theorem compareItems_length_then_collation:
  "(let query = normalize_str currentFilter;
        itemA = normalize_str (member_string a member);
        itemB = normalize_str (member_string b member)
    in score fz query itemA = score fz query itemB \<longrightarrow>
       indexOf itemA query = indexOf itemB query \<longrightarrow>
         (length itemA < length itemB \<longrightarrow>
            compareItems fz lc currentFilter a b member = Finite (- 1))
       \<and> (length itemB < length itemA \<longrightarrow>
            compareItems fz lc currentFilter a b member = Finite 1)
       \<and> (length itemA = length itemB \<longrightarrow> lc itemB itemA \<noteq> 0 \<longrightarrow>
            compareItems fz lc currentFilter a b member = Finite (lc itemB itemA)))"
  using compareItems_length_step [of fz currentFilter a member b lc]
    compareItems_locale_step [of fz currentFilter a member b lc]
  by (simp add: Let_def)

theorem compareItems_length_then_collation_witness:
  "compareItems fuzzy_match_ref localeCompare_ref ''a''
     \<lparr>label = ''ab'', uri_path = ''/w/ab''\<rparr> \<lparr>label = ''abc'', uri_path = ''/w/abc''\<rparr> GetLabel =
   Finite (- 1)
   \<and> compareItems fuzzy_match_ref localeCompare_ref ''a''
     \<lparr>label = ''ac'', uri_path = ''/w/ac''\<rparr> \<lparr>label = ''ab'', uri_path = ''/w/ab''\<rparr> GetLabel =
   Finite (- 1)"
proof (intro conjI)
  have "normalize_str ''a'' = ''a''" "normalize_str ''ab'' = ''ab''"
    "normalize_str ''abc'' = ''abc''"
    "score fuzzy_match_ref ''a'' ''ab'' = Finite 501"
    "score fuzzy_match_ref ''a'' ''abc'' = Finite 501"
    "indexOf ''ab'' ''a'' = 0" "indexOf ''abc'' ''a'' = 0"
    by code_simp+
  with compareItems_length_then_collation [of "''a''" "\<lparr>label = ''ab'', uri_path = ''/w/ab''\<rparr>"
      GetLabel "\<lparr>label = ''abc'', uri_path = ''/w/abc''\<rparr>" fuzzy_match_ref localeCompare_ref]
  show "compareItems fuzzy_match_ref localeCompare_ref ''a''
     \<lparr>label = ''ab'', uri_path = ''/w/ab''\<rparr> \<lparr>label = ''abc'', uri_path = ''/w/abc''\<rparr> GetLabel =
   Finite (- 1)"
    by (simp add: Let_def)
  have "normalize_str ''a'' = ''a''" "normalize_str ''ab'' = ''ab''"
    "normalize_str ''ac'' = ''ac''"
    "score fuzzy_match_ref ''a'' ''ab'' = Finite 501"
    "score fuzzy_match_ref ''a'' ''ac'' = Finite 501"
    "indexOf ''ab'' ''a'' = 0" "indexOf ''ac'' ''a'' = 0"
    "localeCompare_ref ''ab'' ''ac'' = - 1"
    by code_simp+
  with compareItems_length_then_collation [of "''a''" "\<lparr>label = ''ac'', uri_path = ''/w/ac''\<rparr>"
      GetLabel "\<lparr>label = ''ab'', uri_path = ''/w/ab''\<rparr>" fuzzy_match_ref localeCompare_ref]
  show "compareItems fuzzy_match_ref localeCompare_ref ''a''
     \<lparr>label = ''ac'', uri_path = ''/w/ac''\<rparr> \<lparr>label = ''ab'', uri_path = ''/w/ab''\<rparr> GetLabel =
   Finite (- 1)"
    by (simp add: Let_def)
qed

subsection \<open>An empty filter\<close>

lemma fuzzy_walk_empty_pattern:
  "fuzzy_walk [] s currScore (Finite 0) = ([], Finite 0)"
  by (induction s arbitrary: currScore) (simp_all add: round_number_exact)

lemma fuzzy_match_ref_empty_pattern:
  "fuzzy_match_ref [] s = Some (if s = [] then Infinity else Score 0)"
  by (simp add: fuzzy_match_ref_def toLowerCase_def fuzzy_walk_empty_pattern)

text \<open>
  C10. When the filter normalizes to the empty string, splitting it gives the single
  empty piece, which every string contains, so every score is the sum of the fuzzy
  contribution and the exact bonus of 500. The bonus cancels in the comparison: for
  fuzzy contributions below \<open>2^52\<close> in magnitude, where the sums are not rounded (the
  contribution of the \<^verbatim>\<open>fuzzy\<close> package for the empty pattern is 0 or 1000), the
  score step compares the fuzzy contributions and returns their difference, the index
  step always ties (the empty string occurs at index 0), and the length, the
  collation and the \<open>uri\<close> key decide the rest.
\<close>

theorem compareItems_empty_filter:
  assumes "normalize_str currentFilter = []"
  shows "split_whitespace (normalize_str currentFilter) = [[]]
   \<and> includes_str str []
   \<and> score fz (normalize_str currentFilter) str =
       js_add (Finite (case fz [] str of
                         None \<Rightarrow> 0 | Some Infinity \<Rightarrow> 1000 | Some (Score n) \<Rightarrow> n))
              (Finite 500)
   \<and> (let itemA = normalize_str (member_string a member);
           itemB = normalize_str (member_string b member);
           fuzzyA = (case fz [] itemA of None \<Rightarrow> 0 | Some Infinity \<Rightarrow> 1000 | Some (Score n) \<Rightarrow> n);
           fuzzyB = (case fz [] itemB of None \<Rightarrow> 0 | Some Infinity \<Rightarrow> 1000 | Some (Score n) \<Rightarrow> n)
       in \<bar>fuzzyA\<bar> < 2 ^ 52 \<longrightarrow> \<bar>fuzzyB\<bar> < 2 ^ 52 \<longrightarrow>
            score fz (normalize_str currentFilter) itemA = Finite (fuzzyA + 500)
          \<and> score fz (normalize_str currentFilter) itemB = Finite (fuzzyB + 500)
          \<and> compareItems fz lc currentFilter a b member =
              (if fuzzyA \<noteq> fuzzyB then Finite (fuzzyB - fuzzyA)
               else if length itemA \<noteq> length itemB
                 then (if length itemA < length itemB then Finite (- 1) else Finite 1)
               else if lc itemB itemA \<noteq> 0 then Finite (lc itemB itemA)
               else if member = GetUri then Finite 0
               else compareItems fz lc currentFilter a b GetUri))"
proof (intro conjI)
  show "split_whitespace (normalize_str currentFilter) = [[]]"
    by (simp add: assms split_whitespace_Nil)
  show "includes_str str []"
    by (rule includes_str_empty)
  have sc: "score fz [] s =
       js_add (Finite (case fz [] s of
                         None \<Rightarrow> 0 | Some Infinity \<Rightarrow> 1000 | Some (Score n) \<Rightarrow> n))
              (Finite 500)" for s
    unfolding score_eq Scores_max_def Scores_exact_def Scores_partial_def
    by (simp add: split_whitespace_Nil includes_str_empty)
  then show "score fz (normalize_str currentFilter) str =
       js_add (Finite (case fz [] str of
                         None \<Rightarrow> 0 | Some Infinity \<Rightarrow> 1000 | Some (Score n) \<Rightarrow> n))
              (Finite 500)"
    by (simp add: assms)
  have exact: "score fz [] s = Finite (c + 500)"
    if "c = (case fz [] s of None \<Rightarrow> 0 | Some Infinity \<Rightarrow> 1000 | Some (Score n) \<Rightarrow> n)"
      and "\<bar>c\<bar> < 2 ^ 52" for s c
  proof -
    from that(2) have "\<bar>c + 500\<bar> < 2 ^ 53" by simp
    then have "js_add (Finite c) (Finite 500) = Finite (c + 500)" by (rule js_add_exact)
    with sc [of s] that(1) show ?thesis by simp
  qed
  show "let itemA = normalize_str (member_string a member);
           itemB = normalize_str (member_string b member);
           fuzzyA = (case fz [] itemA of None \<Rightarrow> 0 | Some Infinity \<Rightarrow> 1000 | Some (Score n) \<Rightarrow> n);
           fuzzyB = (case fz [] itemB of None \<Rightarrow> 0 | Some Infinity \<Rightarrow> 1000 | Some (Score n) \<Rightarrow> n)
       in \<bar>fuzzyA\<bar> < 2 ^ 52 \<longrightarrow> \<bar>fuzzyB\<bar> < 2 ^ 52 \<longrightarrow>
            score fz (normalize_str currentFilter) itemA = Finite (fuzzyA + 500)
          \<and> score fz (normalize_str currentFilter) itemB = Finite (fuzzyB + 500)
          \<and> compareItems fz lc currentFilter a b member =
              (if fuzzyA \<noteq> fuzzyB then Finite (fuzzyB - fuzzyA)
               else if length itemA \<noteq> length itemB
                 then (if length itemA < length itemB then Finite (- 1) else Finite 1)
               else if lc itemB itemA \<noteq> 0 then Finite (lc itemB itemA)
               else if member = GetUri then Finite 0
               else compareItems fz lc currentFilter a b GetUri)"
  proof -
    define itemA where "itemA = normalize_str (member_string a member)"
    define itemB where "itemB = normalize_str (member_string b member)"
    define fuzzyA where
      "fuzzyA = (case fz [] itemA of None \<Rightarrow> 0 | Some Infinity \<Rightarrow> 1000 | Some (Score n) \<Rightarrow> n)"
    define fuzzyB where
      "fuzzyB = (case fz [] itemB of None \<Rightarrow> 0 | Some Infinity \<Rightarrow> 1000 | Some (Score n) \<Rightarrow> n)"
    have "score fz (normalize_str currentFilter) itemA = Finite (fuzzyA + 500)
          \<and> score fz (normalize_str currentFilter) itemB = Finite (fuzzyB + 500)
          \<and> compareItems fz lc currentFilter a b member =
              (if fuzzyA \<noteq> fuzzyB then Finite (fuzzyB - fuzzyA)
               else if length itemA \<noteq> length itemB
                 then (if length itemA < length itemB then Finite (- 1) else Finite 1)
               else if lc itemB itemA \<noteq> 0 then Finite (lc itemB itemA)
               else if member = GetUri then Finite 0
               else compareItems fz lc currentFilter a b GetUri)"
      if bA: "\<bar>fuzzyA\<bar> < 2 ^ 52" and bB: "\<bar>fuzzyB\<bar> < 2 ^ 52"
    proof -
      from exact [OF fuzzyA_def bA] have sA: "score fz [] itemA = Finite (fuzzyA + 500)" .
      from exact [OF fuzzyB_def bB] have sB: "score fz [] itemB = Finite (fuzzyB + 500)" .
      from bA bB have "\<bar>(fuzzyB + 500) - (fuzzyA + 500)\<bar> < 2 ^ 53" by simp
      then have d: "js_sub (Finite (fuzzyB + 500)) (Finite (fuzzyA + 500)) =
          Finite (fuzzyB - fuzzyA)"
        using js_sub_exact [of "fuzzyB + 500" "fuzzyA + 500"] by simp
      have "compareItems fz lc currentFilter a b member =
              (if fuzzyA \<noteq> fuzzyB then Finite (fuzzyB - fuzzyA)
               else if length itemA \<noteq> length itemB
                 then (if length itemA < length itemB then Finite (- 1) else Finite 1)
               else if lc itemB itemA \<noteq> 0 then Finite (lc itemB itemA)
               else if member = GetUri then Finite 0
               else compareItems fz lc currentFilter a b GetUri)"
        by (subst compareItems.simps)
           (simp add: Let_def assms sA sB d indexOf_empty strict_equal_def
              itemA_def [symmetric] itemB_def [symmetric])
      with sA sB show ?thesis by (simp add: assms)
    qed
    then show ?thesis
      unfolding Let_def itemA_def [symmetric] itemB_def [symmetric]
        fuzzyA_def [symmetric] fuzzyB_def [symmetric]
      by blast
  qed
qed

theorem compareItems_empty_filter_witness:
  "normalize_str '' '' = []
   \<and> score fuzzy_match_ref (normalize_str '' '') ''ab'' = Finite 500
   \<and> compareItems fuzzy_match_ref localeCompare_ref '' ''
        \<lparr>label = ''ab'', uri_path = ''/w/ab''\<rparr> \<lparr>label = ''abc'', uri_path = ''/w/abc''\<rparr> GetLabel =
      Finite (- 1)"
proof -
  have n: "normalize_str '' '' = []"
    by code_simp
  have e: "normalize_str ''ab'' = ''ab''" "normalize_str ''abc'' = ''abc''"
    "fuzzy_match_ref [] ''ab'' = Some (Score 0)" "fuzzy_match_ref [] ''abc'' = Some (Score 0)"
    by code_simp+
  from compareItems_empty_filter [OF n, of "''ab''" fuzzy_match_ref
      "\<lparr>label = ''ab'', uri_path = ''/w/ab''\<rparr>" GetLabel
      "\<lparr>label = ''abc'', uri_path = ''/w/abc''\<rparr>" localeCompare_ref] n e
  show ?thesis by (simp add: Let_def round_number_exact)
qed

subsection \<open>The values the method returns\<close>

text \<open>
  C2 (amended). The method returns a number that need not be \<open>-1\<close>, \<open>0\<close> or \<open>1\<close>: the
  difference \<^verbatim>\<open>scoreB - scoreA\<close> of the two doubles when the scores differ, which is
  the mathematical difference whenever that is below \<open>2^53\<close> in magnitude; otherwise,
  when both strings contain the filter, at different indices, \<open>indexA - indexB\<close>;
  otherwise, when the indices are equal, \<open>-1\<close> or \<open>1\<close> when the lengths differ;
  otherwise the result of \<^verbatim>\<open>itemB.localeCompare(itemA)\<close> when it is not \<open>0\<close>; otherwise
  \<open>0\<close> under the \<open>uri\<close> key and the result of the comparison under the \<open>uri\<close> key under
  the \<open>label\<close> key. Nothing is said of the index step when one of the strings does not
  contain the filter.
\<close>

theorem compareItems_result_by_step:
  "(let query = normalize_str currentFilter;
        itemA = normalize_str (member_string a member);
        itemB = normalize_str (member_string b member);
        scoreA = score fz query itemA;
        scoreB = score fz query itemB;
        indexA = indexOf itemA query;
        indexB = indexOf itemB query;
        result = compareItems fz lc currentFilter a b member
    in (scoreA \<noteq> scoreB \<longrightarrow> result = js_sub scoreB scoreA)
     \<and> (\<forall>x y. scoreA = Finite x \<longrightarrow> scoreB = Finite y \<longrightarrow> x \<noteq> y \<longrightarrow> \<bar>y - x\<bar> < 2 ^ 53 \<longrightarrow>
           result = Finite (y - x))
     \<and> (scoreA = scoreB \<longrightarrow> 0 \<le> indexA \<longrightarrow> 0 \<le> indexB \<longrightarrow> indexA \<noteq> indexB \<longrightarrow>
           result = Finite (indexA - indexB))
     \<and> (scoreA = scoreB \<longrightarrow> indexA = indexB \<longrightarrow> length itemA \<noteq> length itemB \<longrightarrow>
           result = (if length itemA < length itemB then Finite (- 1) else Finite 1))
     \<and> (scoreA = scoreB \<longrightarrow> indexA = indexB \<longrightarrow> length itemA = length itemB \<longrightarrow>
           lc itemB itemA \<noteq> 0 \<longrightarrow> result = Finite (lc itemB itemA))
     \<and> (scoreA = scoreB \<longrightarrow> indexA = indexB \<longrightarrow> length itemA = length itemB \<longrightarrow>
           lc itemB itemA = 0 \<longrightarrow>
           result = (if member = GetUri then Finite 0
                     else compareItems fz lc currentFilter a b GetUri)))"
proof -
  have "compareItems fz lc currentFilter a b member = Finite (y - x)"
    if "score fz (normalize_str currentFilter) (normalize_str (member_string a member)) = Finite x"
      and "score fz (normalize_str currentFilter) (normalize_str (member_string b member)) = Finite y"
      and "x \<noteq> y" and "\<bar>y - x\<bar> < 2 ^ 53" for x y
    using compareItems_score_step [of fz currentFilter a member b lc] that
    by (simp add: js_sub_exact)
  then show ?thesis
    using compareItems_score_step [of fz currentFilter a member b lc]
      compareItems_index_step [of fz currentFilter a member b lc]
      compareItems_length_step [of fz currentFilter a member b lc]
      compareItems_locale_step [of fz currentFilter a member b lc]
      compareItems_tie_step [of fz currentFilter a member b lc]
    unfolding Let_def by blast
qed

theorem compareItems_result_by_step_witness:
  "score fuzzy_match_ref ''ab'' ''ab.ts'' = Finite 504
   \<and> score fuzzy_match_ref ''ab'' ''a_b.ts'' = Finite 2
   \<and> compareItems fuzzy_match_ref localeCompare_ref ''ab''
        \<lparr>label = ''ab.ts'', uri_path = ''/w/ab.ts''\<rparr> \<lparr>label = ''a_b.ts'', uri_path = ''/w/a_b.ts''\<rparr>
        GetLabel = Finite (2 - 504)"
proof -
  have e: "normalize_str ''ab'' = ''ab''" "normalize_str ''ab.ts'' = ''ab.ts''"
    "normalize_str ''a_b.ts'' = ''a_b.ts''"
    "score fuzzy_match_ref ''ab'' ''ab.ts'' = Finite 504"
    "score fuzzy_match_ref ''ab'' ''a_b.ts'' = Finite 2"
    by code_simp+
  from compareItems_result_by_step [of "''ab''" "\<lparr>label = ''ab.ts'', uri_path = ''/w/ab.ts''\<rparr>"
      GetLabel "\<lparr>label = ''a_b.ts'', uri_path = ''/w/a_b.ts''\<rparr>" fuzzy_match_ref localeCompare_ref] e
  show ?thesis by (simp add: Let_def js_sub_exact)
qed

text \<open>
  C2 as stated fails: for the filter \<^verbatim>\<open>ab\<close>, the label \<^verbatim>\<open>ab.ts\<close> scores
  \<open>4 + 500\<close> and the label \<^verbatim>\<open>a_b.ts\<close> scores \<open>2\<close>, and the method returns their
  difference \<open>-502\<close>.
\<close>

theorem compareItems_sign_range_counterexample:
  "compareItems fuzzy_match_ref localeCompare_ref ''ab''
     \<lparr>label = ''ab.ts'', uri_path = ''/w/ab.ts''\<rparr> \<lparr>label = ''a_b.ts'', uri_path = ''/w/a_b.ts''\<rparr>
     GetLabel \<notin> {Finite (- 1), Finite 0, Finite 1}"
proof -
  have "compareItems fuzzy_match_ref localeCompare_ref ''ab''
     \<lparr>label = ''ab.ts'', uri_path = ''/w/ab.ts''\<rparr> \<lparr>label = ''a_b.ts'', uri_path = ''/w/a_b.ts''\<rparr>
     GetLabel = Finite (- 502)"
    by code_simp
  then show ?thesis by simp
qed

text \<open>
  The scores are compared as doubles. For a filter of 56 letters \<^verbatim>\<open>a\<close> followed by
  \<^verbatim>\<open>xy\<close>, the two labels below get the same score, although the sums of the running
  scores differ by 2 before rounding, and the length step decides.
\<close>

lemma compareItems_rounded_scores_tie:
  "score fuzzy_match_ref ''aaaaaaaaaaaaaaaaaaaaaaaaaaaaaaaaaaaaaaaaaaaaaaaaaaaaaaaaxy'' ''aaaaaaaaaaaaaaaaaaaaaaaaaaaaaaaaaaaaaaaaaaaaaaaaaaaaaaaa_xyzz'' = Finite 144115188075855808
   \<and> score fuzzy_match_ref ''aaaaaaaaaaaaaaaaaaaaaaaaaaaaaaaaaaaaaaaaaaaaaaaaaaaaaaaaxy'' ''aaaaaaaaaaaaaaaaaaaaaaaaaaaaaaaaaaaaaaaaaaaaaaaaaaaaaaaa_x_y'' = Finite 144115188075855808
   \<and> compareItems fuzzy_match_ref localeCompare_ref ''aaaaaaaaaaaaaaaaaaaaaaaaaaaaaaaaaaaaaaaaaaaaaaaaaaaaaaaaxy''
        \<lparr>label = ''aaaaaaaaaaaaaaaaaaaaaaaaaaaaaaaaaaaaaaaaaaaaaaaaaaaaaaaa_xyzz'', uri_path = ''/w''\<rparr>
        \<lparr>label = ''aaaaaaaaaaaaaaaaaaaaaaaaaaaaaaaaaaaaaaaaaaaaaaaaaaaaaaaa_x_y'', uri_path = ''/w''\<rparr> GetLabel = Finite 1"
proof (intro conjI)
  show "score fuzzy_match_ref ''aaaaaaaaaaaaaaaaaaaaaaaaaaaaaaaaaaaaaaaaaaaaaaaaaaaaaaaaxy'' ''aaaaaaaaaaaaaaaaaaaaaaaaaaaaaaaaaaaaaaaaaaaaaaaaaaaaaaaa_xyzz'' = Finite 144115188075855808"
    by code_simp
  show "score fuzzy_match_ref ''aaaaaaaaaaaaaaaaaaaaaaaaaaaaaaaaaaaaaaaaaaaaaaaaaaaaaaaaxy'' ''aaaaaaaaaaaaaaaaaaaaaaaaaaaaaaaaaaaaaaaaaaaaaaaaaaaaaaaa_x_y'' = Finite 144115188075855808"
    by code_simp
  show "compareItems fuzzy_match_ref localeCompare_ref ''aaaaaaaaaaaaaaaaaaaaaaaaaaaaaaaaaaaaaaaaaaaaaaaaaaaaaaaaxy''
        \<lparr>label = ''aaaaaaaaaaaaaaaaaaaaaaaaaaaaaaaaaaaaaaaaaaaaaaaaaaaaaaaa_xyzz'', uri_path = ''/w''\<rparr>
        \<lparr>label = ''aaaaaaaaaaaaaaaaaaaaaaaaaaaaaaaaaaaaaaaaaaaaaaaaaaaaaaaa_x_y'', uri_path = ''/w''\<rparr> GetLabel = Finite 1"
    by code_simp
qed

subsection \<open>A label without the filter against a label with it\<close>

text \<open>
  For every fuzzy primitive and collation: when the scores tie, an item whose string
  does not contain the filter gets a negative result against an item whose string
  contains it, and so is put before it.
\<close>

lemma compareItems_not_found_first:
  assumes "score fz (normalize_str flt) (normalize_str (member_string a m)) =
           score fz (normalize_str flt) (normalize_str (member_string b m))"
    and "\<not> includes_str (normalize_str (member_string a m)) (normalize_str flt)"
    and "includes_str (normalize_str (member_string b m)) (normalize_str flt)"
  shows "\<exists>d. compareItems fz lc flt a b m = Finite d \<and> d < 0"
proof -
  from assms(2) have a: "indexOf (normalize_str (member_string a m)) (normalize_str flt) = - 1"
    by (simp add: includes_str_def)
  from assms(3) indexOf_range [of "normalize_str (member_string b m)" "normalize_str flt"]
  have b: "0 \<le> indexOf (normalize_str (member_string b m)) (normalize_str flt)"
    by (simp add: includes_str_def)
  from a b have "indexOf (normalize_str (member_string a m)) (normalize_str flt) \<noteq>
     indexOf (normalize_str (member_string b m)) (normalize_str flt)" by simp
  from compareItems_index_step [OF assms(1) this, of lc] a b show ?thesis by simp
qed

text \<open>
  C1. Among labels that contain the filter, the smaller index sorts first
  (\<open>compareItems_index_step\<close>: the result is \<open>indexA - indexB\<close>). The same difference
  is returned when one index is the "not found" value \<open>-1\<close>, which is smaller than
  every index of an occurrence (\<open>compareItems_not_found_first\<close>): for the filter
  \<^verbatim>\<open>a b\<close>, the labels \<^verbatim>\<open>a b\<close> (filter at index 0) and \<^verbatim>\<open>a_b\<close> (filter not
  found) both score \<open>2 + 500\<close>, and the method returns \<open>0 - (-1) = 1\<close>: the label
  without the filter sorts first.
\<close>

theorem compareItems_not_found_sorts_first:
  "score fuzzy_match_ref (normalize_str ''a b'') (normalize_str ''a b'') = Finite 502
   \<and> score fuzzy_match_ref (normalize_str ''a b'') (normalize_str ''a_b'') = Finite 502
   \<and> indexOf (normalize_str ''a b'') (normalize_str ''a b'') = 0
   \<and> indexOf (normalize_str ''a_b'') (normalize_str ''a b'') = - 1
   \<and> compareItems fuzzy_match_ref localeCompare_ref ''a b''
        \<lparr>label = ''a b'', uri_path = ''/w/a b''\<rparr> \<lparr>label = ''a_b'', uri_path = ''/w/a_b''\<rparr> GetLabel =
      Finite 1
   \<and> compareItems fuzzy_match_ref localeCompare_ref ''a b''
        \<lparr>label = ''a_b'', uri_path = ''/w/a_b''\<rparr> \<lparr>label = ''a b'', uri_path = ''/w/a b''\<rparr> GetLabel =
      Finite (- 1)"
proof (intro conjI)
  show "score fuzzy_match_ref (normalize_str ''a b'') (normalize_str ''a b'') = Finite 502"
    by code_simp
  show "score fuzzy_match_ref (normalize_str ''a b'') (normalize_str ''a_b'') = Finite 502"
    by code_simp
  show "indexOf (normalize_str ''a b'') (normalize_str ''a b'') = 0"
    by code_simp
  show "indexOf (normalize_str ''a_b'') (normalize_str ''a b'') = - 1"
    by code_simp
  show "compareItems fuzzy_match_ref localeCompare_ref ''a b''
        \<lparr>label = ''a b'', uri_path = ''/w/a b''\<rparr> \<lparr>label = ''a_b'', uri_path = ''/w/a_b''\<rparr> GetLabel =
      Finite 1"
    by code_simp
  show "compareItems fuzzy_match_ref localeCompare_ref ''a b''
        \<lparr>label = ''a_b'', uri_path = ''/w/a_b''\<rparr> \<lparr>label = ''a b'', uri_path = ''/w/a b''\<rparr> GetLabel =
      Finite (- 1)"
    by code_simp
qed

end
